theory Spec2Isabelle
  imports Complex_Main "HOL-Library.Sublist"
begin

section \<open>GridGen: the scenario validation of the front-end API service\<close>

text \<open>
  The development embeds the validation code of
  \<^verbatim>\<open>src/frontend/src/services/ApiService.js\<close> (the rule-based check
  \<^verbatim>\<open>_validateScenarioData\<close>, \<^verbatim>\<open>validateScenario\<close> and
  \<^verbatim>\<open>getValidationResults\<close>) and the two functions of the same names in the
  second copy of the service, \<^verbatim>\<open>src/unnamed/part_000\<close>, which forwards
  validation to the back end and mocks the validation results.

  JavaScript values are modelled at the types the scenario documents have: a field that
  may be missing (\<^verbatim>\<open>undefined\<close> or \<^verbatim>\<open>null\<close>) is an \<open>option\<close>, a number is
  a \<open>real\<close> (the finite numbers a JSON document carries; the code only compares
  them and divides two array lengths, and the rounding of the literals 0.95 and 1.05 to
  doubles is not modelled), a string is a \<open>string\<close> (the code only searches it for
  substrings, character by character). A document may be malformed in two ways, on which
  the check raises a \<^verbatim>\<open>TypeError\<close>: an array of the network may hold
  \<^verbatim>\<open>null\<close> entries, and in the place of an array there may be a value that is not
  one. Documents of other shapes are outside these types. A rejected promise or a thrown
  exception is the left summand of \<open>error + 'a\<close>. The HTTP client and
  \<^verbatim>\<open>Math.random\<close> are parameters of the functions that use them.
\<close>

subsection \<open>Scenario documents\<close>

text \<open>
  The value of a field that should hold an array: an array, whose entries may be
  \<^verbatim>\<open>null\<close>, or \<open>NotAnArray\<close>, a truthy value that is neither an array nor a string
  (a number, \<^verbatim>\<open>true\<close>, an object such as \<^verbatim>\<open>{}\<close>). It has no method
  \<^verbatim>\<open>filter\<close> and cannot be iterated.
\<close>

datatype 'a js_array = ArrayOf "'a option list" | NotAnArray

record initial_status =
  is_vm :: "real option"

text \<open>A bus: \<^verbatim>\<open>id\<close>, \<^verbatim>\<open>vm\<close> and \<^verbatim>\<open>initial_status\<close>. The code never reads \<^verbatim>\<open>id\<close>.\<close>

record bus =
  b_id :: "string option"
  b_vm :: "real option"
  b_initial_status :: "initial_status option"

record ac_line =
  l_id :: "string option"

record device =
  device_type :: "string option"

record network =
  net_bus :: "bus js_array option"
  net_ac_line :: "ac_line js_array option"
  net_simple_dispatchable_device :: "device js_array option"

record scenario =
  sc_scenario_id :: "string option"
  sc_id :: "string option"
  sc_network :: "network option"

subsection \<open>Validation results\<close>

text \<open>
  A violation entry is an object with the keys \<^verbatim>\<open>bus_id\<close> (or \<^verbatim>\<open>line_id\<close>),
  \<^verbatim>\<open>type\<close>, \<^verbatim>\<open>value\<close> and \<^verbatim>\<open>limit\<close>.
\<close>

datatype violation =
  VoltageViolation (bus_id: string) (vtype: string) (observed: real) (limit: real)
| LineViolation (line_id: string) (vtype: string) (observed: real) (limit: real)

record physics_validation =
  pv_is_valid :: bool
  pv_voltage_violations :: "violation list"
  pv_line_violations :: "violation list"

record opendss_validation =
  success :: bool
  od_voltage_violations :: "violation list"
  thermal_violations :: "violation list"

record validation_result =
  scenario_id :: string
  is_valid :: bool
  physics_validation :: physics_validation
  opendss_validation :: opendss_validation
  opendss_success :: bool

text \<open>
  What is thrown: the error of a failed request, or the \<^verbatim>\<open>TypeError\<close> of reading a
  property of \<^verbatim>\<open>null\<close>, calling a method that is missing or iterating a value that is
  not iterable.
\<close>

datatype error = AxiosError string | TypeError

subsection \<open>JavaScript operators used by the check\<close>

text \<open>
  \<^verbatim>\<open>a || b\<close> on strings: \<^verbatim>\<open>a\<close> unless it is falsy, that is missing or the empty
  string.
\<close>

definition or_str :: "string option \<Rightarrow> string \<Rightarrow> string" where
  "or_str a b = (case a of None \<Rightarrow> b | Some s \<Rightarrow> if s = [] then b else s)"

text \<open>
  \<^verbatim>\<open>a || b\<close> on numbers: \<^verbatim>\<open>a\<close> unless it is falsy, that is missing or zero.
\<close>

definition or_num :: "real option \<Rightarrow> real \<Rightarrow> real" where
  "or_num a b = (case a of None \<Rightarrow> b | Some x \<Rightarrow> if x = 0 then b else x)"

text \<open>\<^verbatim>\<open>s.includes(t)\<close>: \<open>t\<close> occurs in \<open>s\<close> as a contiguous run of characters.\<close>

fun js_includes :: "string \<Rightarrow> string \<Rightarrow> bool" where
  "js_includes [] t = (t = [])"
| "js_includes (c # cs) t = (prefix t (c # cs) \<or> js_includes cs t)"

subsection \<open>The rule-based check (ApiService.js, lines 201 to 243)\<close>

text \<open>\<^verbatim>\<open>const network = scenario.network || {}\<close>\<close>

definition network_of :: "scenario \<Rightarrow> network" where
  "network_of scenario =
     (case sc_network scenario of
        Some n \<Rightarrow> n
      | None \<Rightarrow> \<lparr>net_bus = None, net_ac_line = None, net_simple_dispatchable_device = None\<rparr>)"

text \<open>\<^verbatim>\<open>const buses = network.bus || []\<close>\<close>

definition buses_of :: "scenario \<Rightarrow> bus js_array" where
  "buses_of scenario =
     (case net_bus (network_of scenario) of Some bs \<Rightarrow> bs | None \<Rightarrow> ArrayOf [])"

text \<open>\<^verbatim>\<open>const lines = network.ac_line || []\<close> (read, never used afterwards)\<close>

definition lines_of :: "scenario \<Rightarrow> ac_line js_array" where
  "lines_of scenario =
     (case net_ac_line (network_of scenario) of Some ls \<Rightarrow> ls | None \<Rightarrow> ArrayOf [])"

text \<open>\<^verbatim>\<open>const devices = network.simple_dispatchable_device || []\<close>\<close>

definition devices_of :: "scenario \<Rightarrow> device js_array" where
  "devices_of scenario =
     (case net_simple_dispatchable_device (network_of scenario) of
        Some ds \<Rightarrow> ds
      | None \<Rightarrow> ArrayOf [])"

text \<open>
  \<^verbatim>\<open>devices.filter(d => d.device_type === t)\<close> on the entries of an array: reading
  \<^verbatim>\<open>device_type\<close> of a \<^verbatim>\<open>null\<close> entry raises a \<^verbatim>\<open>TypeError\<close>.
\<close>

fun filter_entries :: "string \<Rightarrow> device option list \<Rightarrow> error + device list" where
  "filter_entries t [] = Inr []"
| "filter_entries t (None # ds) = Inl TypeError"
| "filter_entries t (Some d # ds) =
     (case filter_entries t ds of
        Inl err \<Rightarrow> Inl err
      | Inr kept \<Rightarrow> Inr (if device_type d = Some t then d # kept else kept))"

text \<open>
  \<^verbatim>\<open>devices.filter(d => d.device_type === t)\<close>: a value that is not an array has no
  \<^verbatim>\<open>filter\<close>, and the call raises a \<^verbatim>\<open>TypeError\<close>.
\<close>

definition filter_device_type :: "string \<Rightarrow> device js_array \<Rightarrow> error + device list" where
  "filter_device_type t devices =
     (case devices of NotAnArray \<Rightarrow> Inl TypeError | ArrayOf ds \<Rightarrow> filter_entries t ds)"

text \<open>
  \<^verbatim>\<open>const id = scenario.scenario_id || scenario.id || ''\<close>. The operator associates to
  the left; both groupings pick the first operand that is not falsy.
\<close>

definition ident_of :: "scenario \<Rightarrow> string" where
  "ident_of scenario = or_str (sc_scenario_id scenario) (or_str (sc_id scenario) [])"

text \<open>
  \<^verbatim>\<open>id.includes('invalid') || id.includes('stress') || id.includes('overload')\<close>
\<close>

definition flagged :: "string \<Rightarrow> bool" where
  "flagged ident =
     (js_includes ident ''invalid'' \<or> js_includes ident ''stress'' \<or> js_includes ident ''overload'')"

text \<open>
  \<^verbatim>\<open>const voltage = bus.initial_status?.vm || bus.vm || 1.0\<close>. The optional chain gives
  \<^verbatim>\<open>undefined\<close> when \<^verbatim>\<open>initial_status\<close> is missing.
\<close>

definition bus_voltage :: "bus \<Rightarrow> real" where
  "bus_voltage b =
     or_num (case b_initial_status b of None \<Rightarrow> None | Some st \<Rightarrow> is_vm st)
       (or_num (b_vm b) 1.0)"

text \<open>
  The reading of the voltage in the words of the specification, for comparison with
  \<open>bus_voltage\<close>: \<^verbatim>\<open>initial_status.vm\<close> if present, else \<^verbatim>\<open>vm\<close> if present,
  else the default 1.0.
\<close>

definition voltage_as_specified :: "bus \<Rightarrow> real" where
  "voltage_as_specified b =
     (case (case b_initial_status b of None \<Rightarrow> None | Some st \<Rightarrow> is_vm st) of
        Some x \<Rightarrow> x
      | None \<Rightarrow> (case b_vm b of Some y \<Rightarrow> y | None \<Rightarrow> 1.0))"

text \<open>
  The four criteria in the words of the specification, for comparison with the check:
  the devices and buses are the entries of the arrays that are not \<^verbatim>\<open>null\<close>, the
  identifier is \<^verbatim>\<open>scenario_id\<close> if present, else \<^verbatim>\<open>id\<close> if present, and the
  voltage of a bus is \<open>voltage_as_specified\<close>.
\<close>

fun present_entries :: "'a js_array \<Rightarrow> 'a list" where
  "present_entries NotAnArray = []"
| "present_entries (ArrayOf []) = []"
| "present_entries (ArrayOf (None # xs)) = present_entries (ArrayOf xs)"
| "present_entries (ArrayOf (Some x # xs)) = x # present_entries (ArrayOf xs)"

definition count_of_type :: "string \<Rightarrow> scenario \<Rightarrow> nat" where
  "count_of_type t scenario =
     length (filter (\<lambda>d. device_type d = Some t) (present_entries (devices_of scenario)))"

definition identifier_as_specified :: "scenario \<Rightarrow> string" where
  "identifier_as_specified scenario =
     (case sc_scenario_id scenario of
        Some i \<Rightarrow> i
      | None \<Rightarrow> (case sc_id scenario of Some j \<Rightarrow> j | None \<Rightarrow> []))"

definition criteria_as_specified :: "scenario \<Rightarrow> bool" where
  "criteria_as_specified scenario =
     (1 \<le> count_of_type ''producer'' scenario
      \<and> (if 0 < count_of_type ''producer'' scenario
         then real (count_of_type ''consumer'' scenario)
                / real (count_of_type ''producer'' scenario) \<le> 2
         else True)
      \<and> \<not> (sublist ''invalid'' (identifier_as_specified scenario)
            \<or> sublist ''stress'' (identifier_as_specified scenario)
            \<or> sublist ''overload'' (identifier_as_specified scenario))
      \<and> list_all (\<lambda>b. 0.95 \<le> voltage_as_specified b \<and> voltage_as_specified b \<le> 1.05)
            (present_entries (buses_of scenario)))"

text \<open>
  The loop over the entries of the array of buses (lines 234 to 240): the first bus
  whose voltage is below 0.95 or above 1.05 sets \<^verbatim>\<open>isValid = false\<close> and leaves the
  loop; reading \<^verbatim>\<open>initial_status\<close> of a \<^verbatim>\<open>null\<close> entry raises a
  \<^verbatim>\<open>TypeError\<close>. Beside \<^verbatim>\<open>isValid\<close> the function returns the buses whose
  voltage the loop has read, in order; the code keeps no such list, it records which
  iterations the loop ran.
\<close>

fun scan_entries :: "bus option list \<Rightarrow> bool \<Rightarrow> error + bool \<times> bus list" where
  "scan_entries [] isValid = Inr (isValid, [])"
| "scan_entries (None # rest) isValid = Inl TypeError"
| "scan_entries (Some b # rest) isValid =
     (let voltage = bus_voltage b in
      if voltage < 0.95 \<or> voltage > 1.05 then Inr (False, [b])
      else (case scan_entries rest isValid of
              Inl err \<Rightarrow> Inl err
            | Inr (isValid', visited) \<Rightarrow> Inr (isValid', b # visited)))"

text \<open>
  \<^verbatim>\<open>for (const bus of buses)\<close>: a value that is not an array cannot be iterated,
  and the loop raises a \<^verbatim>\<open>TypeError\<close>.
\<close>

definition scan_buses :: "bus js_array \<Rightarrow> bool \<Rightarrow> error + bool \<times> bus list" where
  "scan_buses buses isValid =
     (case buses of NotAnArray \<Rightarrow> Inl TypeError | ArrayOf bs \<Rightarrow> scan_entries bs isValid)"

text \<open>
  \<^verbatim>\<open>_validateScenarioData(scenario)\<close>: the verdict, or the \<^verbatim>\<open>TypeError\<close> raised on
  the way, by the first filter, the second filter or the loop, in this order.
\<close>

definition validateScenarioData :: "scenario \<Rightarrow> error + bool" where
  "validateScenarioData scenario =
     (let buses = buses_of scenario;
          lines = lines_of scenario;
          devices = devices_of scenario
      in case filter_device_type ''producer'' devices of
           Inl err \<Rightarrow> Inl err
         | Inr generators \<Rightarrow>
             (case filter_device_type ''consumer'' devices of
                Inl err \<Rightarrow> Inl err
              | Inr loads \<Rightarrow>
                  (let isValid = True;
                       isValid = (if length generators < 1 then False else isValid);
                       isValid = (if length generators > 0
                                     \<and> real (length loads) / real (length generators) > 2
                                  then False else isValid);
                       ident = ident_of scenario;
                       isValid = (if flagged ident then False else isValid)
                   in case scan_buses buses isValid of
                        Inl err \<Rightarrow> Inl err
                      | Inr (isValid', visited) \<Rightarrow> Inr isValid')))"

subsection \<open>validateScenario and getValidationResults (ApiService.js)\<close>

text \<open>
  \<^verbatim>\<open>getScenarioById\<close> (lines 40 to 48): the response's data, or the request's error
  thrown again. \<open>api_get\<close> is the request \<^verbatim>\<open>api.get(`/scenarios/${id}`)\<close>.
\<close>

definition getScenarioById :: "(string \<Rightarrow> error + scenario) \<Rightarrow> string \<Rightarrow> error + scenario" where
  "getScenarioById api_get ident =
     (case api_get ident of Inr data \<Rightarrow> Inr data | Inl err \<Rightarrow> Inl err)"

text \<open>
  The object returned at lines 110 to 134, again at lines 144 to 168 and at lines 281 to
  305 (the three literals are the same text).
\<close>

definition simulated_result :: "string \<Rightarrow> bool \<Rightarrow> validation_result" where
  "simulated_result scenarioId isValid =
     \<lparr>scenario_id = scenarioId,
      is_valid = isValid,
      physics_validation =
        \<lparr>pv_is_valid = isValid,
         pv_voltage_violations =
           (if isValid then [] else [VoltageViolation ''Bus1'' ''Low voltage'' 0.92 0.95]),
         pv_line_violations =
           (if isValid then [] else [LineViolation ''Line1-2'' ''Flow exceeds limit'' 320 300])\<rparr>,
      opendss_validation =
        \<lparr>success = isValid, od_voltage_violations = [], thermal_violations = []\<rparr>,
      opendss_success = isValid\<rparr>"

text \<open>The object returned by the \<^verbatim>\<open>catch\<close> block, lines 171 to 190.\<close>

definition error_result :: "string \<Rightarrow> validation_result" where
  "error_result scenarioId =
     \<lparr>scenario_id = scenarioId,
      is_valid = False,
      physics_validation =
        \<lparr>pv_is_valid = False,
         pv_voltage_violations = [VoltageViolation ''Error'' ''Error validating'' 0 0],
         pv_line_violations = []\<rparr>,
      opendss_validation =
        \<lparr>success = False, od_voltage_violations = [], thermal_violations = []\<rparr>,
      opendss_success = False\<rparr>"

text \<open>
  \<^verbatim>\<open>validateScenario(scenarioId, scenarioData = null)\<close>, lines 103 to 192. The inner
  \<open>case\<close> is the \<^verbatim>\<open>try\<close> block, the outer one the \<^verbatim>\<open>catch\<close>: it catches the
  error of the fetch and the \<^verbatim>\<open>TypeError\<close> of the check alike.
\<close>

definition validateScenario ::
  "(string \<Rightarrow> error + scenario) \<Rightarrow> string \<Rightarrow> scenario option \<Rightarrow> error + validation_result" where
  "validateScenario api_get scenarioId scenarioData =
     (case (case scenarioData of
              Some d \<Rightarrow>
                (case validateScenarioData d of
                   Inl err \<Rightarrow> Inl err
                 | Inr isValid \<Rightarrow> Inr (simulated_result scenarioId isValid))
            | None \<Rightarrow>
                (case getScenarioById api_get scenarioId of
                   Inl err \<Rightarrow> Inl err
                 | Inr scenario \<Rightarrow>
                     (case validateScenarioData scenario of
                        Inl err \<Rightarrow> Inl err
                      | Inr isValid \<Rightarrow> Inr (simulated_result scenarioId isValid))))
      of
        Inr r \<Rightarrow> Inr r
      | Inl err \<Rightarrow> Inr (error_result scenarioId))"

text \<open>
  \<^verbatim>\<open>getValidationResults(scenarioId)\<close>, lines 251 to 307. \<open>api_get_validation\<close> is
  the request \<^verbatim>\<open>api.get(`/scenarios/${scenarioId}/validation`)\<close>; when it fails the
  result is simulated in the \<^verbatim>\<open>catch\<close> block. A \<^verbatim>\<open>TypeError\<close> that the check
  raises there is caught by nothing and leaves the function.
\<close>

definition getValidationResults ::
  "(string \<Rightarrow> error + validation_result) \<Rightarrow> (string \<Rightarrow> error + scenario) \<Rightarrow> string
     \<Rightarrow> error + validation_result" where
  "getValidationResults api_get_validation api_get scenarioId =
     (case api_get_validation scenarioId of
        Inr data \<Rightarrow> Inr data
      | Inl err \<Rightarrow>
          (let scenario = (case getScenarioById api_get scenarioId of
                             Inr s \<Rightarrow> Some s
                           | Inl err' \<Rightarrow> None);
               isValid = True;
               isValid = (if js_includes scenarioId ''invalid''
                             \<or> js_includes scenarioId ''stress''
                             \<or> js_includes scenarioId ''overload''
                          then False else isValid)
           in case (case scenario of
                      Some s \<Rightarrow> validateScenarioData s
                    | None \<Rightarrow> Inr isValid)
              of
                Inl err' \<Rightarrow> Inl err'
              | Inr isValid' \<Rightarrow> Inr (simulated_result scenarioId isValid')))"

subsection \<open>The second copy of the service (src/unnamed/part\_000)\<close>

text \<open>
  \<^verbatim>\<open>validateScenario(scenarioId)\<close>, lines 103 to 119: fetch the scenario, post it to
  \<^verbatim>\<open>/scenarios/validate\<close> (\<open>api_post\<close>), return the response's data; the
  \<^verbatim>\<open>catch\<close> block logs and throws the error again.
\<close>

definition validateScenario_part000 ::
  "(string \<Rightarrow> error + scenario) \<Rightarrow> (string \<Rightarrow> scenario \<Rightarrow> error + validation_result) \<Rightarrow> string
     \<Rightarrow> error + validation_result" where
  "validateScenario_part000 api_get api_post scenarioId =
     (case (case getScenarioById api_get scenarioId of
              Inl err \<Rightarrow> Inl err
            | Inr scenario \<Rightarrow>
                (case api_post scenarioId scenario of
                   Inl err \<Rightarrow> Inl err
                 | Inr data \<Rightarrow> Inr data))
      of
        Inr r \<Rightarrow> Inr r
      | Inl err \<Rightarrow> Inl err)"

text \<open>
  \<^verbatim>\<open>getValidationResults(scenarioId)\<close>, lines 127 to 152. \<open>random1\<close> and
  \<open>random2\<close> are the values of the two calls of \<^verbatim>\<open>Math.random()\<close>, in the order
  of evaluation.
\<close>

definition getValidationResults_part000 ::
  "(string \<Rightarrow> error + validation_result) \<Rightarrow> real \<Rightarrow> real \<Rightarrow> string \<Rightarrow> error + validation_result" where
  "getValidationResults_part000 api_get_validation random1 random2 scenarioId =
     (case api_get_validation scenarioId of
        Inr data \<Rightarrow> Inr data
      | Inl err \<Rightarrow>
          Inr \<lparr>scenario_id = scenarioId,
               is_valid = (random1 > 0.3),
               physics_validation =
                 \<lparr>pv_is_valid = (random2 > 0.3),
                  pv_voltage_violations = [],
                  pv_line_violations = []\<rparr>,
               opendss_validation =
                 \<lparr>success = True, od_voltage_violations = [], thermal_violations = []\<rparr>,
               opendss_success = True\<rparr>)"

subsection \<open>Example inputs\<close>

definition producer :: device where
  "producer = \<lparr>device_type = Some ''producer''\<rparr>"

definition consumer :: device where
  "consumer = \<lparr>device_type = Some ''consumer''\<rparr>"

text \<open>A bus with the given \<^verbatim>\<open>id\<close> and \<^verbatim>\<open>vm\<close> and no \<^verbatim>\<open>initial_status\<close>.\<close>

definition plain_bus :: "string \<Rightarrow> real \<Rightarrow> bus" where
  "plain_bus name v = \<lparr>b_id = Some name, b_vm = Some v, b_initial_status = None\<rparr>"

text \<open>A document with the given \<^verbatim>\<open>scenario_id\<close>, buses and devices, and no lines.\<close>

definition mk_document :: "string \<Rightarrow> bus js_array \<Rightarrow> device js_array \<Rightarrow> scenario" where
  "mk_document name bs ds =
     \<lparr>sc_scenario_id = Some name,
      sc_id = None,
      sc_network = Some \<lparr>net_bus = Some bs, net_ac_line = Some (ArrayOf []),
                         net_simple_dispatchable_device = Some ds\<rparr>\<rparr>"

text \<open>A document whose arrays hold no \<^verbatim>\<open>null\<close>.\<close>

definition mk_scenario :: "string \<Rightarrow> bus list \<Rightarrow> device list \<Rightarrow> scenario" where
  "mk_scenario name bs ds = mk_document name (ArrayOf (map Some bs)) (ArrayOf (map Some ds))"

text \<open>A client whose every request fails.\<close>

definition offline :: "string \<Rightarrow> error + 'a" where
  "offline url = Inl (AxiosError ''Network Error'')"

text \<open>A client that answers every request for a scenario with \<open>d\<close>.\<close>

definition serving :: "scenario \<Rightarrow> string \<Rightarrow> error + scenario" where
  "serving d url = Inr d"

text \<open>A back end whose \<^verbatim>\<open>/scenarios/validate\<close> request fails.\<close>

definition offline_post :: "string \<Rightarrow> scenario \<Rightarrow> error + validation_result" where
  "offline_post scenarioId d = Inl (AxiosError ''Network Error'')"

text \<open>Four buses at 1.0, two producers, two consumers.\<close>

definition demo_scenario :: scenario where
  "demo_scenario =
     mk_scenario ''demo-001''
       [plain_bus ''1'' 1.0, plain_bus ''2'' 1.0, plain_bus ''3'' 1.0, plain_bus ''4'' 1.0]
       [producer, producer, consumer, consumer]"

definition no_generator_scenario :: scenario where
  "no_generator_scenario = mk_scenario ''case-2'' [] [consumer, consumer, consumer]"

definition overloaded_scenario :: scenario where
  "overloaded_scenario = mk_scenario ''case-3'' [] [producer, consumer, consumer, consumer]"

definition stress_scenario :: scenario where
  "stress_scenario = mk_scenario ''stress-test-7'' [plain_bus ''1'' 1.0] [producer, consumer]"

text \<open>One producer and one bus, \<^verbatim>\<open>B7\<close>, at 1.2 per unit.\<close>

definition high_voltage_scenario :: scenario where
  "high_voltage_scenario = mk_scenario ''case-4'' [plain_bus ''B7'' 1.2] [producer]"

text \<open>One producer and one bus, \<^verbatim>\<open>B1\<close>, whose \<^verbatim>\<open>vm\<close> is 0.\<close>

definition dead_bus_scenario :: scenario where
  "dead_bus_scenario = mk_scenario ''case-5'' [plain_bus ''B1'' 0] [producer]"


text \<open>
  One producer and one bus whose \<^verbatim>\<open>initial_status.vm\<close> is 0 and whose \<^verbatim>\<open>vm\<close> is
  1.0.
\<close>

definition zero_status_bus :: bus where
  "zero_status_bus =
     \<lparr>b_id = Some ''B2'', b_vm = Some 1.0, b_initial_status = Some \<lparr>is_vm = Some 0\<rparr>\<rparr>"

text \<open>
  One producer and the buses \<^verbatim>\<open>B1\<close> at 1.0 and \<^verbatim>\<open>B2\<close> at 0.8, followed by a
  \<^verbatim>\<open>null\<close> entry.
\<close>

definition null_after_violation_scenario :: scenario where
  "null_after_violation_scenario =
     mk_document ''case-8''
       (ArrayOf [Some (plain_bus ''B1'' 1.0), Some (plain_bus ''B2'' 0.8), None])
       (ArrayOf [Some producer])"

text \<open>One producer and the bus \<^verbatim>\<open>B1\<close> at 1.0, followed by a \<^verbatim>\<open>null\<close> entry.\<close>

definition null_bus_scenario :: scenario where
  "null_bus_scenario =
     mk_document ''case-7'' (ArrayOf [Some (plain_bus ''B1'' 1.0), None]) (ArrayOf [Some producer])"

text \<open>A \<^verbatim>\<open>null\<close> entry among the devices.\<close>

definition null_device_scenario :: scenario where
  "null_device_scenario =
     mk_document ''case-9'' (ArrayOf [Some (plain_bus ''B1'' 1.0)]) (ArrayOf [Some producer, None])"

text \<open>An object in the place of the array of buses.\<close>

definition bus_object_scenario :: scenario where
  "bus_object_scenario = mk_document ''case-10'' NotAnArray (ArrayOf [Some producer])"

section \<open>Properties\<close>

subsection \<open>Auxiliary facts\<close>

lemmas scenario_defs =
  network_of_def buses_of_def lines_of_def devices_of_def ident_of_def or_str_def or_num_def
  bus_voltage_def flagged_def filter_device_type_def scan_buses_def

lemmas example_defs =
  producer_def consumer_def plain_bus_def mk_document_def mk_scenario_def offline_def
  serving_def offline_post_def demo_scenario_def no_generator_scenario_def
  overloaded_scenario_def stress_scenario_def high_voltage_scenario_def
  dead_bus_scenario_def zero_status_bus_def null_after_violation_scenario_def
  null_bus_scenario_def null_device_scenario_def bus_object_scenario_def

text \<open>\<open>js_includes\<close> is the library's contiguous-sublist relation.\<close>

lemma js_includes_iff_sublist: "js_includes s t \<longleftrightarrow> sublist t s"
  by (induction s) (auto simp: sublist_Cons_right)

lemma flagged_iff_sublist:
  "flagged i \<longleftrightarrow> sublist ''invalid'' i \<or> sublist ''stress'' i \<or> sublist ''overload'' i"
  by (simp add: flagged_def js_includes_iff_sublist)

text \<open>The search is case-sensitive.\<close>

lemma flagged_is_case_sensitive: "flagged ''stress-1'' \<and> \<not> flagged ''Stress-1''"
  by (simp add: flagged_def)

text \<open>The entries that are not \<^verbatim>\<open>null\<close>.\<close>

lemma present_entries_map_Some [simp]: "present_entries (ArrayOf (map Some xs)) = xs"
  by (induction xs) auto

lemma present_entries_append [simp]:
  "present_entries (ArrayOf (xs @ ys)) = present_entries (ArrayOf xs) @ present_entries (ArrayOf ys)"
proof (induction xs)
  case Nil
  then show ?case by simp
next
  case (Cons x xs)
  then show ?case by (cases x) auto
qed

text \<open>The filter returns the matching devices, or throws on a \<^verbatim>\<open>null\<close> entry.\<close>

lemma filter_entries_present:
  "None \<notin> set ds \<Longrightarrow>
     filter_entries t ds = Inr (filter (\<lambda>d. device_type d = Some t) (present_entries (ArrayOf ds)))"
proof (induction ds)
  case Nil
  then show ?case by simp
next
  case (Cons d ds)
  then show ?case by (cases d) auto
qed

lemma filter_entries_null: "None \<in> set ds \<Longrightarrow> filter_entries t ds = Inl TypeError"
proof (induction ds)
  case Nil
  then show ?case by simp
next
  case (Cons d ds)
  then show ?case by (cases d) (auto split: sum.splits)
qed

lemma filter_entries_error: "filter_entries t ds = Inl err \<Longrightarrow> err = TypeError"
proof (induction ds)
  case Nil
  then show ?case by simp
next
  case (Cons d ds)
  then show ?case by (cases d) (auto split: sum.splits)
qed

text \<open>
  The loop: its verdict is the flag it was given unless a bus it read is out of range; it
  ends at the first bus out of range, reading nothing after it; it reads every bus when
  all are in range; it throws on a \<^verbatim>\<open>null\<close> entry it reaches.
\<close>

lemma scan_entries_verdict:
  "scan_entries bs v = Inr (v', visited) \<Longrightarrow>
     v' \<longleftrightarrow> v \<and> list_all (\<lambda>b. 0.95 \<le> bus_voltage b \<and> bus_voltage b \<le> 1.05) visited"
proof (induction bs v arbitrary: v' visited rule: scan_entries.induct)
  case (1 isValid)
  then show ?case by simp
next
  case (2 rest isValid)
  then show ?case by simp
next
  case (3 b rest isValid)
  then show ?case
    by (auto simp: Let_def split: if_splits sum.splits prod.splits)
qed


lemma scan_entries_all:
  assumes "None \<notin> set bs"
      and "list_all (\<lambda>p. 0.95 \<le> bus_voltage p \<and> bus_voltage p \<le> 1.05) (present_entries (ArrayOf bs))"
  shows "scan_entries bs v = Inr (v, present_entries (ArrayOf bs))"
  using assms
proof (induction bs)
  case Nil
  then show ?case by simp
next
  case (Cons b bs)
  then show ?case by (cases b) (auto simp: Let_def)
qed

lemma scan_entries_present:
  assumes "None \<notin> set bs"
  shows "\<exists>visited. scan_entries bs v =
           Inr (v \<and> list_all (\<lambda>p. 0.95 \<le> bus_voltage p \<and> bus_voltage p \<le> 1.05)
                      (present_entries (ArrayOf bs)), visited)"
  using assms
proof (induction bs)
  case Nil
  then show ?case by simp
next
  case (Cons b bs)
  then show ?case by (cases b) (auto simp: Let_def)
qed

lemma scan_entries_null:
  assumes "list_all (\<lambda>p. 0.95 \<le> bus_voltage p \<and> bus_voltage p \<le> 1.05) pre"
  shows "scan_entries (map Some pre @ None # rest) v = Inl TypeError"
  using assms by (induction pre) (auto simp: Let_def)

lemma scan_entries_error: "scan_entries bs v = Inl err \<Longrightarrow> err = TypeError"
proof (induction bs)
  case Nil
  then show ?case by simp
next
  case (Cons b bs)
  then show ?case by (cases b) (auto simp: Let_def split: if_splits sum.splits prod.splits)
qed

text \<open>The check: what it throws, and its verdict on a document without \<^verbatim>\<open>null\<close> entries.\<close>

lemma validateScenarioData_error:
  "validateScenarioData s = Inl err \<Longrightarrow> err = TypeError"
  by (auto simp: validateScenarioData_def filter_device_type_def scan_buses_def Let_def
      split: sum.splits prod.splits js_array.splits
      dest: filter_entries_error scan_entries_error)

lemma validateScenarioData_null_device:
  "devices_of s = ArrayOf ds \<Longrightarrow> None \<in> set ds \<Longrightarrow> validateScenarioData s = Inl TypeError"
  by (simp add: validateScenarioData_def filter_device_type_def filter_entries_null Let_def)

lemma validateScenarioData_throws_examples:
  "validateScenarioData null_bus_scenario = Inl TypeError
   \<and> validateScenarioData null_device_scenario = Inl TypeError
   \<and> validateScenarioData bus_object_scenario = Inl TypeError
   \<and> validateScenarioData null_after_violation_scenario = Inr False"
  by (simp add: validateScenarioData_def scenario_defs example_defs Let_def)

lemma validateScenarioData_devices_not_array:
  "devices_of s = NotAnArray \<Longrightarrow> validateScenarioData s = Inl TypeError"
  by (simp add: validateScenarioData_def filter_device_type_def Let_def)

lemma validateScenarioData_flagged:
  "flagged (ident_of d) \<Longrightarrow> validateScenarioData d \<noteq> Inr True"
  by (auto simp: validateScenarioData_def scan_buses_def Let_def
      split: sum.splits prod.splits js_array.splits dest: scan_entries_verdict)

lemma validateScenarioData_well_formed:
  assumes "devices_of s = ArrayOf ds" and "None \<notin> set ds"
      and "buses_of s = ArrayOf bs" and "None \<notin> set bs"
  shows "validateScenarioData s =
           Inr (1 \<le> count_of_type ''producer'' s
                \<and> \<not> (0 < count_of_type ''producer'' s
                     \<and> real (count_of_type ''consumer'' s) / real (count_of_type ''producer'' s) > 2)
                \<and> \<not> flagged (ident_of s)
                \<and> list_all (\<lambda>p. 0.95 \<le> bus_voltage p \<and> bus_voltage p \<le> 1.05)
                     (present_entries (buses_of s)))"
proof -
  define g where "g = count_of_type ''producer'' s"
  define l where "l = count_of_type ''consumer'' s"
  define v0 where
    "v0 = (if flagged (ident_of s) then False
           else if g > 0 \<and> real l / real g > 2 then False
           else if g < 1 then False else True)"
  have gens: "filter_device_type ''producer'' (devices_of s)
                = Inr (filter (\<lambda>d. device_type d = Some ''producer'')
                        (present_entries (devices_of s)))"
    using assms(1,2) by (simp add: filter_device_type_def filter_entries_present)
  have loads: "filter_device_type ''consumer'' (devices_of s)
                = Inr (filter (\<lambda>d. device_type d = Some ''consumer'')
                        (present_entries (devices_of s)))"
    using assms(1,2) by (simp add: filter_device_type_def filter_entries_present)
  have unfolded:
    "validateScenarioData s =
       (case scan_buses (buses_of s) v0 of
          Inl err \<Rightarrow> Inl err
        | Inr (isValid', visited) \<Rightarrow> Inr isValid')"
    unfolding validateScenarioData_def Let_def gens loads v0_def g_def l_def count_of_type_def
    by simp
  obtain visited where
    "scan_buses (buses_of s) v0 =
       Inr (v0 \<and> list_all (\<lambda>p. 0.95 \<le> bus_voltage p \<and> bus_voltage p \<le> 1.05)
                   (present_entries (buses_of s)), visited)"
    using scan_entries_present [OF assms(4), of v0] assms(3)
    by (auto simp: scan_buses_def)
  then have "validateScenarioData s =
       Inr (v0 \<and> list_all (\<lambda>p. 0.95 \<le> bus_voltage p \<and> bus_voltage p \<le> 1.05)
                   (present_entries (buses_of s)))"
    by (simp add: unfolded)
  moreover have "v0 \<longleftrightarrow> 1 \<le> g \<and> \<not> (0 < g \<and> real l / real g > 2) \<and> \<not> flagged (ident_of s)"
    by (cases g) (auto simp: v0_def)
  ultimately show ?thesis
    unfolding g_def l_def by (simp add: conj_ac)
qed

text \<open>
  Where no field that is present holds 0, the code's reading of a bus voltage is the
  specified one; where \<^verbatim>\<open>scenario_id\<close> is not the empty string, the identifier is the
  specified one; and on such a document without \<^verbatim>\<open>null\<close> entries the check returns
  what the four criteria of the specification say.
\<close>

lemma bus_voltage_as_specified:
  assumes "\<forall>st. b_initial_status b = Some st \<longrightarrow> is_vm st \<noteq> Some 0"
      and "b_vm b \<noteq> Some 0"
  shows "bus_voltage b = voltage_as_specified b"
  using assms
  by (auto simp: bus_voltage_def voltage_as_specified_def or_num_def split: option.splits)

lemma ident_as_specified:
  assumes "sc_scenario_id s \<noteq> Some []"
  shows "ident_of s = identifier_as_specified s"
  using assms
  by (auto simp: ident_of_def identifier_as_specified_def or_str_def split: option.splits)

lemma validateScenarioData_as_specified:
  assumes "devices_of s = ArrayOf ds" and "None \<notin> set ds"
      and "buses_of s = ArrayOf bs" and "None \<notin> set bs"
      and "sc_scenario_id s \<noteq> Some []"
      and "\<forall>b \<in> set (present_entries (buses_of s)).
             b_vm b \<noteq> Some 0 \<and> (\<forall>st. b_initial_status b = Some st \<longrightarrow> is_vm st \<noteq> Some 0)"
  shows "validateScenarioData s = Inr (criteria_as_specified s)"
proof -
  have "list_all (\<lambda>p. 0.95 \<le> bus_voltage p \<and> bus_voltage p \<le> 1.05) (present_entries (buses_of s))
        = list_all (\<lambda>p. 0.95 \<le> voltage_as_specified p \<and> voltage_as_specified p \<le> 1.05)
            (present_entries (buses_of s))"
    using assms(6) by (auto simp: list_all_iff bus_voltage_as_specified)
  then show ?thesis
    unfolding validateScenarioData_well_formed [OF assms(1-4)] criteria_as_specified_def
      ident_as_specified [OF assms(5)] flagged_iff_sublist
    by (auto simp: not_less)
qed

text \<open>The ways through \<open>validateScenario\<close> and \<open>getValidationResults\<close>.\<close>

lemma validateScenario_reached:
  "data = Some d \<or> data = None \<and> api_get sid = Inr d \<Longrightarrow>
     validateScenario api_get sid data =
       Inr (case validateScenarioData d of
              Inl err \<Rightarrow> error_result sid
            | Inr isValid \<Rightarrow> simulated_result sid isValid)"
  by (auto simp: validateScenario_def getScenarioById_def split: sum.splits)

lemma validateScenario_failed:
  "api_get sid = Inl e \<Longrightarrow> validateScenario api_get sid None = Inr (error_result sid)"
  by (simp add: validateScenario_def getScenarioById_def)

lemma validateScenario_cases:
  "(\<exists>b. validateScenario api_get sid data = Inr (simulated_result sid b))
   \<or> validateScenario api_get sid data = Inr (error_result sid)"
  by (auto simp: validateScenario_def getScenarioById_def split: option.splits sum.splits)

lemma getValidationResults_fallback:
  "api_get_validation sid = Inl e \<Longrightarrow>
     (\<exists>b. getValidationResults api_get_validation api_get sid = Inr (simulated_result sid b))
     \<or> (\<exists>d. api_get sid = Inr d \<and> validateScenarioData d = Inl TypeError
           \<and> getValidationResults api_get_validation api_get sid = Inl TypeError)"
  by (auto simp: getValidationResults_def getScenarioById_def Let_def
      split: sum.splits dest: validateScenarioData_error)

text \<open>
  A fetched document with a \<^verbatim>\<open>null\<close> bus makes \<open>getValidationResults\<close> throw.
\<close>

lemma getValidationResults_throws:
  "getValidationResults offline (serving null_bus_scenario) ''case-7'' = Inl TypeError"
  by (simp add: getValidationResults_def getScenarioById_def validateScenarioData_def
      scenario_defs example_defs Let_def)

subsection \<open>The rule-based check\<close>

text \<open>
  Claim C1 says that the check returns true exactly when the four criteria hold, the
  fourth being that the voltage of every bus lies in the interval from 0.95 to 1.05.
  The code breaks this at a scenario with one producer, no consumer, the identifier
  \<^verbatim>\<open>case-5\<close> and one bus whose \<^verbatim>\<open>vm\<close> is 0: the bus is out of range, the criteria
  do not hold, and the check returns true. (The check reads the 0 as the default 1.0,
  the defect of claim C4; \<open>validateScenarioData_as_specified\<close> is the equivalence
  where no voltage field is 0.)
\<close>

theorem zero_voltage_scenario_is_accepted:
  "count_of_type ''producer'' dead_bus_scenario = 1
   \<and> count_of_type ''consumer'' dead_bus_scenario = 0
   \<and> identifier_as_specified dead_bus_scenario = ''case-5''
   \<and> present_entries (buses_of dead_bus_scenario) = [plain_bus ''B1'' 0]
   \<and> voltage_as_specified (plain_bus ''B1'' 0) < 0.95
   \<and> \<not> criteria_as_specified dead_bus_scenario
   \<and> validateScenarioData dead_bus_scenario = Inr True"
  by (simp add: validateScenarioData_def criteria_as_specified_def count_of_type_def
      identifier_as_specified_def voltage_as_specified_def scenario_defs example_defs Let_def)

text \<open>
  Claim C3. A scenario whose identifier (\<^verbatim>\<open>scenario_id\<close>, or \<^verbatim>\<open>id\<close> as the fallback)
  contains \<^verbatim>\<open>invalid\<close>, \<^verbatim>\<open>stress\<close> or \<^verbatim>\<open>overload\<close> as a substring is reported with
  \<^verbatim>\<open>is_valid = false\<close> by \<open>validateScenario\<close>, whatever its network holds, both when
  the scenario is passed in and when it is fetched.
\<close>

theorem flagged_identifier_is_invalid:
  assumes "sublist ''invalid'' (ident_of d) \<or> sublist ''stress'' (ident_of d)
             \<or> sublist ''overload'' (ident_of d)"
      and "data = Some d \<or> data = None \<and> api_get sid = Inr d"
  shows "\<exists>r. validateScenario api_get sid data = Inr r \<and> \<not> is_valid r"
proof -
  from assms(1) have "validateScenarioData d \<noteq> Inr True"
    by (simp add: validateScenarioData_flagged flagged_iff_sublist)
  with validateScenario_reached [of data d api_get sid] assms(2) show ?thesis
    by (auto simp: simulated_result_def error_result_def split: sum.splits)
qed

text \<open>
  The theorem at the scenario \<^verbatim>\<open>stress-test-7\<close>, whose bus is at 1.0 and which has one
  producer and one consumer: passed in, and fetched.
\<close>

theorem flagged_identifier_is_invalid_witness:
  "sublist ''stress'' (ident_of stress_scenario)
   \<and> (\<exists>r. validateScenario offline ''7'' (Some stress_scenario) = Inr r \<and> \<not> is_valid r)
   \<and> serving stress_scenario ''7'' = Inr stress_scenario
   \<and> (\<exists>r. validateScenario (serving stress_scenario) ''7'' None = Inr r \<and> \<not> is_valid r)"
proof -
  have h: "sublist ''stress'' (ident_of stress_scenario)"
    unfolding js_includes_iff_sublist [symmetric]
    by (simp add: scenario_defs example_defs)
  have s: "serving stress_scenario ''7'' = Inr stress_scenario"
    by (simp add: serving_def)
  show ?thesis
    using h s flagged_identifier_is_invalid [of stress_scenario "Some stress_scenario" offline "''7''"]
      flagged_identifier_is_invalid [of stress_scenario None "serving stress_scenario" "''7''"]
    by simp
qed

text \<open>
  Claim C4 says that the check reads \<^verbatim>\<open>initial_status.vm\<close> if present, else \<^verbatim>\<open>vm\<close> if
  present, else 1.0, and that a \<^verbatim>\<open>vm\<close> of 0 is checked as 0. The code joins the three
  with \<^verbatim>\<open>||\<close>, which skips 0 as it skips a missing field: a bus whose \<^verbatim>\<open>vm\<close> is 0 is
  read as 1.0 and passes, and a scenario whose only bus is that one is valid; an
  \<^verbatim>\<open>initial_status.vm\<close> of 0 is skipped in favour of \<^verbatim>\<open>vm\<close>.
\<close>

theorem zero_voltage_read_as_default:
  "voltage_as_specified (plain_bus ''B1'' 0) = 0
   \<and> bus_voltage (plain_bus ''B1'' 0) = 1
   \<and> buses_of dead_bus_scenario = ArrayOf [Some (plain_bus ''B1'' 0)]
   \<and> validateScenarioData dead_bus_scenario = Inr True
   \<and> voltage_as_specified zero_status_bus = 0
   \<and> bus_voltage zero_status_bus = 1"
  by (simp add: validateScenarioData_def voltage_as_specified_def scenario_defs example_defs
      Let_def)




subsection \<open>The results of validateScenario and getValidationResults\<close>

text \<open>
  Claim C6, as the code has it. In the result of \<open>validateScenario\<close> the
  \<^verbatim>\<open>line_violations\<close> of the rule-based pass is empty when the scenario passes the
  check, and in the error result (the check threw, or fetching the scenario failed);
  when the scenario fails the check it holds exactly one entry, the fixed one written in
  the code (\<^verbatim>\<open>line_id\<close> \<^verbatim>\<open>Line1-2\<close>, type \<^verbatim>\<open>Flow exceeds limit\<close>, value 320,
  limit 300).
\<close>

theorem line_violations_empty_iff_valid:
  "((data = Some d \<or> data = None \<and> api_get sid = Inr d) \<longrightarrow>
      (\<exists>r. validateScenario api_get sid data = Inr r
         \<and> pv_line_violations (physics_validation r) =
             (case validateScenarioData d of
                Inl err \<Rightarrow> []
              | Inr isValid \<Rightarrow>
                  if isValid then []
                  else [LineViolation ''Line1-2'' ''Flow exceeds limit'' 320 300])))
   \<and> (api_get sid = Inl e \<longrightarrow>
        (\<exists>r. validateScenario api_get sid None = Inr r
           \<and> pv_line_violations (physics_validation r) = []))"
proof (intro conjI impI)
  assume "data = Some d \<or> data = None \<and> api_get sid = Inr d"
  then show "\<exists>r. validateScenario api_get sid data = Inr r
         \<and> pv_line_violations (physics_validation r) =
             (case validateScenarioData d of
                Inl err \<Rightarrow> []
              | Inr isValid \<Rightarrow>
                  if isValid then []
                  else [LineViolation ''Line1-2'' ''Flow exceeds limit'' 320 300])"
    using validateScenario_reached [of data d api_get sid]
    by (simp add: simulated_result_def error_result_def split: sum.splits)
next
  assume "api_get sid = Inl e"
  then show "\<exists>r. validateScenario api_get sid None = Inr r
           \<and> pv_line_violations (physics_validation r) = []"
    by (simp add: validateScenario_failed error_result_def)
qed

text \<open>
  The theorem at a valid scenario passed in, at a fetched scenario without producers, at
  a document with a \<^verbatim>\<open>null\<close> bus, and at a failed fetch.
\<close>

theorem line_violations_empty_iff_valid_witness:
  "validateScenarioData demo_scenario = Inr True
   \<and> (\<exists>r. validateScenario offline ''demo-001'' (Some demo_scenario) = Inr r
         \<and> pv_line_violations (physics_validation r) = [])
   \<and> serving no_generator_scenario ''case-2'' = Inr no_generator_scenario
   \<and> validateScenarioData no_generator_scenario = Inr False
   \<and> (\<exists>r. validateScenario (serving no_generator_scenario) ''case-2'' None = Inr r
         \<and> pv_line_violations (physics_validation r) =
             [LineViolation ''Line1-2'' ''Flow exceeds limit'' 320 300])
   \<and> validateScenarioData null_bus_scenario = Inl TypeError
   \<and> (\<exists>r. validateScenario offline ''case-7'' (Some null_bus_scenario) = Inr r
         \<and> pv_line_violations (physics_validation r) = [])
   \<and> offline ''case-2'' = (Inl (AxiosError ''Network Error'') :: error + scenario)
   \<and> (\<exists>r. validateScenario offline ''case-2'' None = Inr r
         \<and> pv_line_violations (physics_validation r) = [])"
proof -
  have v1: "validateScenarioData demo_scenario = Inr True"
    by (simp add: validateScenarioData_def scenario_defs example_defs Let_def)
  have v2: "validateScenarioData no_generator_scenario = Inr False"
    by (simp add: validateScenarioData_def scenario_defs example_defs Let_def)
  have v3: "validateScenarioData null_bus_scenario = Inl TypeError"
    by (simp add: validateScenarioData_def scenario_defs example_defs Let_def)
  show ?thesis
    using v1 v2 v3
      line_violations_empty_iff_valid [of "Some demo_scenario" demo_scenario offline "''demo-001''"
            "AxiosError ''Network Error''"]
      line_violations_empty_iff_valid [of None no_generator_scenario "serving no_generator_scenario" "''case-2''"
            "AxiosError ''Network Error''"]
      line_violations_empty_iff_valid [of "Some null_bus_scenario" null_bus_scenario offline "''case-7''"
            "AxiosError ''Network Error''"]
      line_violations_empty_iff_valid [of None no_generator_scenario offline "''case-2''" "AxiosError ''Network Error''"]
    by (simp add: serving_def offline_def)
qed

text \<open>
  Claim C6 as stated fails: for the scenario with three consumers and no producer the
  \<^verbatim>\<open>line_violations\<close> of the rule-based pass holds one entry.
\<close>

theorem line_violations_of_invalid_scenario:
  "validateScenario offline ''case-2'' (Some no_generator_scenario) =
     Inr \<lparr>scenario_id = ''case-2'',
          is_valid = False,
          physics_validation =
            \<lparr>pv_is_valid = False,
             pv_voltage_violations = [VoltageViolation ''Bus1'' ''Low voltage'' 0.92 0.95],
             pv_line_violations = [LineViolation ''Line1-2'' ''Flow exceeds limit'' 320 300]\<rparr>,
          opendss_validation =
            \<lparr>success = False, od_voltage_violations = [], thermal_violations = []\<rparr>,
          opendss_success = False\<rparr>"
  by (simp add: validateScenario_def validateScenarioData_def simulated_result_def
      scenario_defs example_defs Let_def)

text \<open>
  Claim C2, as the code has it. In every result that the rule-based service produces
  (the result of \<open>validateScenario\<close>, and the result that \<open>getValidationResults\<close>
  simulates when the validation request fails) the top-level \<^verbatim>\<open>is_valid\<close> is true
  exactly when \<^verbatim>\<open>physics_validation.is_valid\<close> and \<^verbatim>\<open>opendss_validation.success\<close>
  both are. \<open>getValidationResults\<close> produces such a result unless the check throws on
  the fetched document.
\<close>

theorem is_valid_is_conjunction:
  "(\<exists>r. validateScenario api_get sid data = Inr r
        \<and> (is_valid r \<longleftrightarrow> pv_is_valid (physics_validation r) \<and> success (opendss_validation r)))
   \<and> (api_get_validation sid = Inl e \<longrightarrow>
        (\<exists>r. getValidationResults api_get_validation api_get sid = Inr r
           \<and> (is_valid r \<longleftrightarrow> pv_is_valid (physics_validation r) \<and> success (opendss_validation r)))
        \<or> (\<exists>d. api_get sid = Inr d \<and> validateScenarioData d = Inl TypeError
              \<and> getValidationResults api_get_validation api_get sid = Inl TypeError))"
proof (intro conjI impI)
  show "\<exists>r. validateScenario api_get sid data = Inr r
        \<and> (is_valid r \<longleftrightarrow> pv_is_valid (physics_validation r) \<and> success (opendss_validation r))"
    using validateScenario_cases [of api_get sid data]
    by (auto simp: simulated_result_def error_result_def)
next
  assume "api_get_validation sid = Inl e"
  then show "(\<exists>r. getValidationResults api_get_validation api_get sid = Inr r
           \<and> (is_valid r \<longleftrightarrow> pv_is_valid (physics_validation r) \<and> success (opendss_validation r)))
        \<or> (\<exists>d. api_get sid = Inr d \<and> validateScenarioData d = Inl TypeError
              \<and> getValidationResults api_get_validation api_get sid = Inl TypeError)"
    using getValidationResults_fallback [of api_get_validation sid e api_get]
    by (auto simp: simulated_result_def)
qed

text \<open>
  The theorem at a valid scenario passed to \<open>validateScenario\<close>, and at
  \<open>getValidationResults\<close> with a failing validation request and a fetched scenario
  without producers.
\<close>

theorem is_valid_is_conjunction_witness:
  "(\<exists>r. validateScenario offline ''demo-001'' (Some demo_scenario) = Inr r
        \<and> is_valid r \<and> pv_is_valid (physics_validation r) \<and> success (opendss_validation r))
   \<and> offline ''case-2'' = (Inl (AxiosError ''Network Error'') :: error + validation_result)
   \<and> (\<exists>r. getValidationResults offline (serving no_generator_scenario) ''case-2'' = Inr r
        \<and> \<not> is_valid r \<and> \<not> pv_is_valid (physics_validation r)
        \<and> \<not> success (opendss_validation r))"
  using is_valid_is_conjunction [of offline "''demo-001''" "Some demo_scenario" offline "AxiosError ''Network Error''"]
    is_valid_is_conjunction [of "serving no_generator_scenario" "''case-2''" None offline
          "AxiosError ''Network Error''"]
  by (simp add: validateScenario_def getValidationResults_def getScenarioById_def
      validateScenarioData_def simulated_result_def scenario_defs example_defs Let_def)

text \<open>
  Claim C2 as stated fails on the mocked results of the second copy of the service: with
  the random draws 0.5 and 0.1 the top-level \<^verbatim>\<open>is_valid\<close> is true while
  \<^verbatim>\<open>physics_validation.is_valid\<close> is false.
\<close>

theorem mocked_is_valid_is_not_conjunction:
  "getValidationResults_part000 offline 0.5 0.1 ''demo-001'' =
     Inr \<lparr>scenario_id = ''demo-001'',
          is_valid = True,
          physics_validation =
            \<lparr>pv_is_valid = False, pv_voltage_violations = [], pv_line_violations = []\<rparr>,
          opendss_validation =
            \<lparr>success = True, od_voltage_violations = [], thermal_violations = []\<rparr>,
          opendss_success = True\<rparr>"
  by (simp add: getValidationResults_part000_def offline_def)

text \<open>
  Claim C7, as the code has it. No fault of the validation stage leaves
  \<open>validateScenario\<close> of the rule-based service as an exception: it returns a result
  for every client, identifier and scenario. When the check throws, on a scenario passed
  in or on a fetched one, or when fetching the scenario fails, the result has
  \<^verbatim>\<open>is_valid = false\<close>, both sub-results, and a single violation entry with
  \<^verbatim>\<open>bus_id\<close> \<^verbatim>\<open>Error\<close>, type \<^verbatim>\<open>Error validating\<close>, value 0 and limit 0.
  (\<open>validateScenario\<close> of the second copy throws the error again.)
\<close>

theorem validateScenario_returns_on_error:
  "(\<exists>r. validateScenario api_get sid data = Inr r)
   \<and> ((data = Some d \<and> validateScenarioData d = Inl err)
        \<or> (data = None \<and> api_get sid = Inl err)
        \<or> (data = None \<and> api_get sid = Inr d \<and> validateScenarioData d = Inl err)
       \<longrightarrow>
        validateScenario api_get sid data =
          Inr \<lparr>scenario_id = sid,
               is_valid = False,
               physics_validation =
                 \<lparr>pv_is_valid = False,
                  pv_voltage_violations = [VoltageViolation ''Error'' ''Error validating'' 0 0],
                  pv_line_violations = []\<rparr>,
               opendss_validation =
                 \<lparr>success = False, od_voltage_violations = [], thermal_violations = []\<rparr>,
               opendss_success = False\<rparr>)"
proof (intro conjI impI)
  show "\<exists>r. validateScenario api_get sid data = Inr r"
    using validateScenario_cases [of api_get sid data] by auto
next
  assume "(data = Some d \<and> validateScenarioData d = Inl err)
        \<or> (data = None \<and> api_get sid = Inl err)
        \<or> (data = None \<and> api_get sid = Inr d \<and> validateScenarioData d = Inl err)"
  then have "validateScenario api_get sid data = Inr (error_result sid)"
    using validateScenario_reached [of data d api_get sid]
      validateScenario_failed [of api_get sid err]
    by auto
  then show "validateScenario api_get sid data =
          Inr \<lparr>scenario_id = sid,
               is_valid = False,
               physics_validation =
                 \<lparr>pv_is_valid = False,
                  pv_voltage_violations = [VoltageViolation ''Error'' ''Error validating'' 0 0],
                  pv_line_violations = []\<rparr>,
               opendss_validation =
                 \<lparr>success = False, od_voltage_violations = [], thermal_violations = []\<rparr>,
               opendss_success = False\<rparr>"
    by (simp add: error_result_def)
qed

text \<open>
  The theorem at a document with a \<^verbatim>\<open>null\<close> bus passed in, at a client whose requests
  fail, and at a fetched document with a \<^verbatim>\<open>null\<close> device.
\<close>

theorem validateScenario_returns_on_error_witness:
  "validateScenarioData null_bus_scenario = Inl TypeError
   \<and> validateScenario offline ''case-7'' (Some null_bus_scenario) =
       Inr \<lparr>scenario_id = ''case-7'',
            is_valid = False,
            physics_validation =
              \<lparr>pv_is_valid = False,
               pv_voltage_violations = [VoltageViolation ''Error'' ''Error validating'' 0 0],
               pv_line_violations = []\<rparr>,
            opendss_validation =
              \<lparr>success = False, od_voltage_violations = [], thermal_violations = []\<rparr>,
            opendss_success = False\<rparr>
   \<and> offline ''case-7'' = (Inl (AxiosError ''Network Error'') :: error + scenario)
   \<and> validateScenario offline ''case-7'' None
       = validateScenario offline ''case-7'' (Some null_bus_scenario)
   \<and> serving null_device_scenario ''case-7'' = Inr null_device_scenario
   \<and> validateScenarioData null_device_scenario = Inl TypeError
   \<and> validateScenario (serving null_device_scenario) ''case-7'' None
       = validateScenario offline ''case-7'' (Some null_bus_scenario)"
proof -
  have v1: "validateScenarioData null_bus_scenario = Inl TypeError"
    by (simp add: validateScenarioData_def scenario_defs example_defs Let_def)
  have v2: "validateScenarioData null_device_scenario = Inl TypeError"
    by (simp add: validateScenarioData_def scenario_defs example_defs Let_def)
  have f: "offline ''case-7'' = (Inl (AxiosError ''Network Error'') :: error + scenario)"
    by (simp add: offline_def)
  have s: "serving null_device_scenario ''case-7'' = Inr null_device_scenario"
    by (simp add: serving_def)
  show ?thesis
    using v1 v2 f s
      validateScenario_returns_on_error [of offline "''case-7''" "Some null_bus_scenario" null_bus_scenario TypeError]
      validateScenario_returns_on_error [of offline "''case-7''" None null_bus_scenario "AxiosError ''Network Error''"]
      validateScenario_returns_on_error [of "serving null_device_scenario" "''case-7''" None null_device_scenario TypeError]
    by simp
qed

text \<open>
  Claim C7 as stated fails on \<open>validateScenario\<close> of the second copy of the service: a
  failure of the fetch, and a failure of the validation request for a fetched scenario,
  both leave the function as the error thrown.
\<close>

theorem part000_validateScenario_throws:
  "validateScenario_part000 offline offline_post ''demo-001'' = Inl (AxiosError ''Network Error'')
   \<and> validateScenario_part000 (serving demo_scenario) offline_post ''demo-001''
       = Inl (AxiosError ''Network Error'')"
  by (simp add: validateScenario_part000_def getScenarioById_def offline_def serving_def
      offline_post_def)

text \<open>
  Claim C8. In every result the service produces, the top-level \<^verbatim>\<open>opendss_success\<close>
  equals \<^verbatim>\<open>opendss_validation.success\<close>: in the result of \<open>validateScenario\<close>, in
  the result \<open>getValidationResults\<close> simulates when the validation request fails
  (it produces one unless the check throws on the fetched document), and in the mocked
  result of the second copy's \<open>getValidationResults\<close>.
\<close>

theorem success_flags_in_sync:
  "(\<exists>r. validateScenario api_get sid data = Inr r
        \<and> opendss_success r = success (opendss_validation r))
   \<and> (api_get_validation sid = Inl e \<longrightarrow>
        (\<exists>r. getValidationResults api_get_validation api_get sid = Inr r
           \<and> opendss_success r = success (opendss_validation r))
        \<or> (\<exists>d. api_get sid = Inr d \<and> validateScenarioData d = Inl TypeError
              \<and> getValidationResults api_get_validation api_get sid = Inl TypeError))
   \<and> (api_get_validation sid = Inl e \<longrightarrow>
        (\<exists>r. getValidationResults_part000 api_get_validation random1 random2 sid = Inr r
           \<and> opendss_success r = success (opendss_validation r)))"
proof (intro conjI impI)
  show "\<exists>r. validateScenario api_get sid data = Inr r
        \<and> opendss_success r = success (opendss_validation r)"
    using validateScenario_cases [of api_get sid data]
    by (auto simp: simulated_result_def error_result_def)
next
  assume "api_get_validation sid = Inl e"
  then show "(\<exists>r. getValidationResults api_get_validation api_get sid = Inr r
           \<and> opendss_success r = success (opendss_validation r))
        \<or> (\<exists>d. api_get sid = Inr d \<and> validateScenarioData d = Inl TypeError
              \<and> getValidationResults api_get_validation api_get sid = Inl TypeError)"
    using getValidationResults_fallback [of api_get_validation sid e api_get]
    by (auto simp: simulated_result_def)
next
  assume "api_get_validation sid = Inl e"
  then show "\<exists>r. getValidationResults_part000 api_get_validation random1 random2 sid = Inr r
           \<and> opendss_success r = success (opendss_validation r)"
    by (simp add: getValidationResults_part000_def)
qed

text \<open>
  The theorem at a failing validation request, with a fetched scenario whose bus is out
  of range and with the random draws 0.5 and 0.1.
\<close>

theorem success_flags_in_sync_witness:
  "offline ''case-4'' = (Inl (AxiosError ''Network Error'') :: error + validation_result)
   \<and> (\<exists>r. getValidationResults offline (serving high_voltage_scenario) ''case-4'' = Inr r
         \<and> opendss_success r = success (opendss_validation r) \<and> \<not> opendss_success r)
   \<and> (\<exists>r. getValidationResults_part000 offline 0.5 0.1 ''case-4'' = Inr r
         \<and> opendss_success r = success (opendss_validation r) \<and> opendss_success r)"
  using success_flags_in_sync [of "serving high_voltage_scenario" "''case-4''" None offline
          "AxiosError ''Network Error''" "0.5" "0.1"]
  by (simp add: getValidationResults_def getValidationResults_part000_def getScenarioById_def
      validateScenarioData_def simulated_result_def scenario_defs example_defs Let_def)

text \<open>
  Claim C10. In every result of \<open>validateScenario\<close>, and in the result that
  \<open>getValidationResults\<close> simulates (it produces one unless the check throws on the
  fetched document), the circuit block mirrors the rule-based check:
  \<^verbatim>\<open>opendss_validation.success\<close> equals \<^verbatim>\<open>physics_validation.is_valid\<close>, and the
  block's \<^verbatim>\<open>voltage_violations\<close> and \<^verbatim>\<open>thermal_violations\<close> are empty.
\<close>

theorem opendss_block_mirrors_physics:
  "(\<exists>r. validateScenario api_get sid data = Inr r
        \<and> success (opendss_validation r) = pv_is_valid (physics_validation r)
        \<and> od_voltage_violations (opendss_validation r) = []
        \<and> thermal_violations (opendss_validation r) = [])
   \<and> (api_get_validation sid = Inl e \<longrightarrow>
        (\<exists>r. getValidationResults api_get_validation api_get sid = Inr r
           \<and> success (opendss_validation r) = pv_is_valid (physics_validation r)
        \<and> od_voltage_violations (opendss_validation r) = []
        \<and> thermal_violations (opendss_validation r) = [])
        \<or> (\<exists>d. api_get sid = Inr d \<and> validateScenarioData d = Inl TypeError
              \<and> getValidationResults api_get_validation api_get sid = Inl TypeError))"
proof (intro conjI impI)
  show "\<exists>r. validateScenario api_get sid data = Inr r
        \<and> success (opendss_validation r) = pv_is_valid (physics_validation r)
        \<and> od_voltage_violations (opendss_validation r) = []
        \<and> thermal_violations (opendss_validation r) = []"
    using validateScenario_cases [of api_get sid data]
    by (auto simp: simulated_result_def error_result_def)
next
  assume "api_get_validation sid = Inl e"
  then show "(\<exists>r. getValidationResults api_get_validation api_get sid = Inr r
           \<and> success (opendss_validation r) = pv_is_valid (physics_validation r)
        \<and> od_voltage_violations (opendss_validation r) = []
        \<and> thermal_violations (opendss_validation r) = [])
        \<or> (\<exists>d. api_get sid = Inr d \<and> validateScenarioData d = Inl TypeError
              \<and> getValidationResults api_get_validation api_get sid = Inl TypeError)"
    using getValidationResults_fallback [of api_get_validation sid e api_get]
    by (auto simp: simulated_result_def)
qed

text \<open>
  The theorem at a failing validation request with a fetched scenario of one producer
  and three consumers: the rule-based block reports a violation, the circuit block none.
\<close>

theorem opendss_block_mirrors_physics_witness:
  "offline ''case-3'' = (Inl (AxiosError ''Network Error'') :: error + validation_result)
   \<and> (\<exists>r. getValidationResults offline (serving overloaded_scenario) ''case-3'' = Inr r
         \<and> \<not> success (opendss_validation r) \<and> \<not> pv_is_valid (physics_validation r)
         \<and> pv_voltage_violations (physics_validation r) \<noteq> []
         \<and> od_voltage_violations (opendss_validation r) = []
         \<and> thermal_violations (opendss_validation r) = [])"
  using opendss_block_mirrors_physics [of "serving overloaded_scenario" "''case-3''" None offline
          "AxiosError ''Network Error''"]
  by (simp add: getValidationResults_def getScenarioById_def
      validateScenarioData_def simulated_result_def scenario_defs example_defs Let_def)

end
